theory Spec2Isabelle
  imports Complex_Main "HOL-Library.Sublist"
begin

section \<open>Python values and the builtins that Pytero/requests.py uses\<close>

text \<open>
  The values that travel through \<^verbatim>\<open>RequestManager\<close>: keyword arguments, query
  options and decoded JSON payloads. Dictionaries keep their insertion order, so a
  dictionary is an association list; a dictionary built by Python has distinct keys.
  Python's \<^verbatim>\<open>float\<close> is not among the values (no option of the query is one).
  A character of a \<open>string\<close> stands for one character of a Python \<^verbatim>\<open>str\<close>.
\<close>

datatype pyval =
    VNone
  | VBool bool
  | VInt int
  | VStr string
  | VList "pyval list"
  | VTuple "pyval list"
  | VDict "(string \<times> pyval) list"

type_synonym dict = "(string \<times> pyval) list"

text \<open>
  Every \<^verbatim>\<open>raise\<close> of the source is a constructor with the message the source
  gives it. \<open>PyTypeError\<close>, \<open>PyAttributeError\<close>, \<open>PyKeyError\<close> and \<open>PyIndexError\<close>
  are the exceptions the interpreter raises itself (comparing, formatting, iterating,
  subscripting a value of the wrong type, calling a method of \<^verbatim>\<open>None\<close>).
  \<open>LibraryError\<close> is an exception that comes out of aiohttp (a failed connection, a
  body that does not decode as JSON); its text is whatever the library reports.
\<close>

datatype py_error =
    ValueError string
  | ValidationError string
  | TypeError string
  | PteroAPIError pyval pyval
  | RequestError string
  | PyTypeError
  | PyAttributeError
  | PyKeyError
  | PyIndexError
  | LibraryError string

definition ebind :: "'e + 'a \<Rightarrow> ('a \<Rightarrow> 'e + 'b) \<Rightarrow> 'e + 'b" where
  "ebind r f = (case r of Inl e \<Rightarrow> Inl e | Inr x \<Rightarrow> f x)"

text \<open>Truth value testing: \<^verbatim>\<open>if p\<close>.\<close>

fun truthy :: "pyval \<Rightarrow> bool" where
  "truthy VNone = False"
| "truthy (VBool b) = b"
| "truthy (VInt n) = (n \<noteq> 0)"
| "truthy (VStr s) = (s \<noteq> [])"
| "truthy (VList xs) = (xs \<noteq> [])"
| "truthy (VTuple xs) = (xs \<noteq> [])"
| "truthy (VDict d) = (d \<noteq> [])"

text \<open>\<^verbatim>\<open>d.get(key)\<close>: the value stored under the key, \<^verbatim>\<open>None\<close> when there is none.\<close>

definition dict_get :: "dict \<Rightarrow> string \<Rightarrow> pyval" where
  "dict_get d k = (case map_of d k of None \<Rightarrow> VNone | Some v \<Rightarrow> v)"

text \<open>\<^verbatim>\<open>d.pop(key, None)\<close>, as the dictionary it leaves.\<close>

definition dict_pop :: "string \<Rightarrow> dict \<Rightarrow> dict" where
  "dict_pop k d = filter (\<lambda>kv. fst kv \<noteq> k) d"

text \<open>
  The operand of an integer comparison or of \<^verbatim>\<open>%d\<close>: an \<^verbatim>\<open>int\<close>, or a
  \<^verbatim>\<open>bool\<close> (a subclass of \<^verbatim>\<open>int\<close>: \<^verbatim>\<open>True\<close> is 1). Anything else makes
  \<^verbatim>\<open>1 < p\<close> raise \<^verbatim>\<open>TypeError\<close>.
\<close>

fun as_int :: "pyval \<Rightarrow> int option" where
  "as_int (VInt n) = Some n"
| "as_int (VBool b) = Some (if b then 1 else 0)"
| "as_int v = None"

text \<open>Decimal digits, as \<^verbatim>\<open>%d\<close> prints them.\<close>

definition digit_char :: "nat \<Rightarrow> char" where
  "digit_char d = ''0123456789'' ! d"

fun str_nat :: "nat \<Rightarrow> string" where
  "str_nat n =
     (if n < 10 then [digit_char n]
      else str_nat (n div 10) @ [digit_char (n mod 10)])"

declare str_nat.simps [simp del]

definition str_int :: "int \<Rightarrow> string" where
  "str_int i = (if i < 0 then CHR ''-'' # str_nat (nat (- i)) else str_nat (nat i))"

text \<open>
  \<^verbatim>\<open>str(v)\<close>, which \<^verbatim>\<open>%s\<close> applies to its operand. The text of a container
  (\<^verbatim>\<open>repr\<close> of its elements, with Python's quoting rules) is left to the parameter
  \<open>repr\<close>: every theorem holds whatever that text is.
\<close>

fun py_str :: "(pyval \<Rightarrow> string) \<Rightarrow> pyval \<Rightarrow> string" where
  "py_str repr VNone = ''None''"
| "py_str repr (VBool b) = (if b then ''True'' else ''False'')"
| "py_str repr (VInt n) = str_int n"
| "py_str repr (VStr s) = s"
| "py_str repr v = repr v"

text \<open>
  \<^verbatim>\<open>'filter[%s]=%s' % p\<close>: two conversions need a tuple of exactly two operands;
  any other operand raises \<^verbatim>\<open>TypeError\<close> (not enough arguments, or not all
  arguments converted).
\<close>

fun format_filter :: "(pyval \<Rightarrow> string) \<Rightarrow> pyval \<Rightarrow> py_error + string" where
  "format_filter repr (VTuple [a, b]) =
     Inr (''filter['' @ py_str repr a @ '']='' @ py_str repr b)"
| "format_filter repr v = Inl PyTypeError"

text \<open>
  \<^verbatim>\<open>'sort=%s' % p\<close>: one conversion takes the operand itself, or the only element
  of a one-element tuple; a longer tuple raises \<^verbatim>\<open>TypeError\<close>.
\<close>

fun format_sort :: "(pyval \<Rightarrow> string) \<Rightarrow> pyval \<Rightarrow> py_error + string" where
  "format_sort repr (VTuple [a]) = Inr (''sort='' @ py_str repr a)"
| "format_sort repr (VTuple xs) = Inl PyTypeError"
| "format_sort repr v = Inr (''sort='' @ py_str repr v)"

text \<open>
  Iterating a value, as \<^verbatim>\<open>filter(lambda i: i, p)\<close> does: the elements of a list or
  tuple, the characters of a string, the keys of a dictionary; an integer is not
  iterable.
\<close>

fun iterate :: "pyval \<Rightarrow> py_error + pyval list" where
  "iterate (VList xs) = Inr xs"
| "iterate (VTuple xs) = Inr xs"
| "iterate (VStr s) = Inr (map (\<lambda>c. VStr [c]) s)"
| "iterate (VDict d) = Inr (map (\<lambda>kv. VStr (fst kv)) d)"
| "iterate v = Inl PyTypeError"

text \<open>\<^verbatim>\<open>sep.join(xs)\<close> raises \<^verbatim>\<open>TypeError\<close> unless every element is a \<^verbatim>\<open>str\<close>.\<close>

fun join :: "string \<Rightarrow> string list \<Rightarrow> string" where
  "join sep [] = []"
| "join sep [x] = x"
| "join sep (x # y # ys) = x @ sep @ join sep (y # ys)"

fun str_items :: "pyval list \<Rightarrow> py_error + string list" where
  "str_items [] = Inr []"
| "str_items (VStr s # vs) = ebind (str_items vs) (\<lambda>ss. Inr (s # ss))"
| "str_items (v # vs) = Inl PyTypeError"

definition py_join :: "string \<Rightarrow> pyval list \<Rightarrow> py_error + string" where
  "py_join sep vs = ebind (str_items vs) (\<lambda>ss. Inr (join sep ss))"

text \<open>
  \<^verbatim>\<open>s.lower()\<close> on the letters A to Z. Every other character is left as it is, also
  the cased characters outside ASCII that \<^verbatim>\<open>str.lower\<close> maps; the five method names
  hold none, and the examples below use ASCII names only.
\<close>

definition lower_char :: "char \<Rightarrow> char" where
  "lower_char c =
     (case map_of (zip ''ABCDEFGHIJKLMNOPQRSTUVWXYZ'' ''abcdefghijklmnopqrstuvwxyz'') c of
        None \<Rightarrow> c
      | Some l \<Rightarrow> l)"

definition lower :: "string \<Rightarrow> string" where
  "lower s = map lower_char s"

section \<open>RequestManager._validate_query\<close>

text \<open>
  Each block \<^verbatim>\<open>if p := query.get(...)\<close> of the source (lines 34 to 55) is one step on
  the list \<^verbatim>\<open>res\<close>. \<^verbatim>\<open>1 < p > 50\<close> is Python's chained comparison
  \<^verbatim>\<open>1 < p and p > 50\<close>.
\<close>

definition page_step :: "dict \<Rightarrow> string list \<Rightarrow> py_error + string list" where
  "page_step query res =
     (let p = dict_get query ''page'' in
      if truthy p then
        (case as_int p of
           None \<Rightarrow> Inl PyTypeError
         | Some n \<Rightarrow>
             if 1 < n \<and> n > 50
             then Inl (ValidationError ''page number must be between 1 and 50'')
             else Inr (res @ [''page='' @ str_int n]))
      else Inr res)"

definition per_page_step :: "dict \<Rightarrow> string list \<Rightarrow> py_error + string list" where
  "per_page_step query res =
     (let p = dict_get query ''per_page'' in
      if truthy p then
        (case as_int p of
           None \<Rightarrow> Inl PyTypeError
         | Some n \<Rightarrow>
             if 1 < n \<and> n > 100
             then Inl (ValidationError ''per_page number must be between 1 and 100'')
             else Inr (res @ [''per_page='' @ str_int n]))
      else Inr res)"

definition filter_step ::
  "(pyval \<Rightarrow> string) \<Rightarrow> dict \<Rightarrow> string list \<Rightarrow> py_error + string list" where
  "filter_step repr query res =
     (let p = dict_get query ''filter'' in
      if truthy p then ebind (format_filter repr p) (\<lambda>c. Inr (res @ [c]))
      else Inr res)"

definition include_step :: "dict \<Rightarrow> string list \<Rightarrow> py_error + string list" where
  "include_step query res =
     (let p = dict_get query ''include'' in
      if truthy p then
        ebind (iterate p) (\<lambda>items.
          let p = filter truthy items in
          if length p \<noteq> 0
          then ebind (py_join '','' p) (\<lambda>s. Inr (res @ [''include='' @ s]))
          else Inr res)
      else Inr res)"

definition sort_step ::
  "(pyval \<Rightarrow> string) \<Rightarrow> dict \<Rightarrow> string list \<Rightarrow> py_error + string list" where
  "sort_step repr query res =
     (let p = dict_get query ''sort'' in
      if truthy p then ebind (format_sort repr p) (\<lambda>c. Inr (res @ [c]))
      else Inr res)"

text \<open>Lines 57 to 60: the empty string, or \<^verbatim>\<open>?\<close>, the first clause and the rest.\<close>

definition query_string :: "string list \<Rightarrow> string" where
  "query_string res =
     (if length res = 0 then []
      else ''?'' @ res ! 0 @ (if length res > 1 then ''&'' @ join ''&'' (drop 1 res) else []))"

definition query_clauses :: "(pyval \<Rightarrow> string) \<Rightarrow> dict \<Rightarrow> py_error + string list" where
  "query_clauses repr query =
     ebind (page_step query []) (\<lambda>res.
     ebind (per_page_step query res) (\<lambda>res.
     ebind (filter_step repr query res) (\<lambda>res.
     ebind (include_step query res) (\<lambda>res.
     sort_step repr query res))))"

definition validate_query :: "(pyval \<Rightarrow> string) \<Rightarrow> dict \<Rightarrow> py_error + string" where
  "validate_query repr query =
     ebind (query_clauses repr query) (\<lambda>res. Inr (query_string res))"


section \<open>RequestManager\<close>

text \<open>
  The fields \<^verbatim>\<open>__init__\<close> sets (\<open>api_type\<close> is \<^verbatim>\<open>_type\<close>). \<open>api_type\<close> and
  \<open>auth\<close> may be \<^verbatim>\<open>None\<close>, which \<^verbatim>\<open>get_headers\<close> tests for. \<open>events\<close> is the state
  of the inherited \<^verbatim>\<open>EventManager\<close>, whose class (Pytero/events.py) is not among the
  sources: its type is a parameter.
\<close>

record 'e RequestManager =
  api_type :: "string option"
  domain :: string
  auth :: "string option"
  suspended :: bool
  ping :: real
  events :: 'e

text \<open>Lines 10 to 16; \<open>ev\<close> is what \<^verbatim>\<open>super().__init__()\<close> sets up.\<close>

definition init :: "'e \<Rightarrow> string option \<Rightarrow> string \<Rightarrow> string option \<Rightarrow> 'e RequestManager" where
  "init ev t d a =
     \<lparr>api_type = t, domain = d, auth = a, suspended = False, ping = - 1, events = ev\<rparr>"

text \<open>Lines 18 to 29.\<close>

definition get_headers :: "'e RequestManager \<Rightarrow> py_error + (string \<times> string) list" where
  "get_headers m =
     (case api_type m of
        None \<Rightarrow> Inl (TypeError ''api type is required for requests'')
      | Some t \<Rightarrow>
          (case auth m of
             None \<Rightarrow> Inl (TypeError ''missing authorization for requests'')
           | Some a \<Rightarrow>
               Inr [(''User-Agent'', t @ '' Pytero v0.1.0''),
                    (''Content-Type'', ''application/json''),
                    (''Accept'', ''application/json''),
                    (''Authorization'', ''Bearer '' @ a)]))"

text \<open>
  A response as \<^verbatim>\<open>_make\<close> reads it: its status, and what
  \<^verbatim>\<open>await response.json()\<close> gives, the decoded body or the exception aiohttp raises
  when the body is not JSON.
\<close>

record response =
  status :: int
  json :: "py_error + pyval"

text \<open>
  What a call does to the outside, in order: a call of \<^verbatim>\<open>emit_event\<close>, opening the
  \<^verbatim>\<open>ClientSession\<close>, issuing the request (method name of the session, URL, body,
  headers), the response arriving, closing the session.
\<close>

datatype effect =
    Emit string pyval
  | SessionOpen
  | Request string string pyval "(string \<times> string) list"
  | Received response
  | SessionClose

fun is_emit :: "string \<Rightarrow> effect \<Rightarrow> bool" where
  "is_emit name (Emit n p) = (n = name)"
| "is_emit name x = False"

text \<open>
  What the code calls and does not define: \<^verbatim>\<open>EventManager.emit_event\<close>, which may
  raise and acts on the event manager's state; \<^verbatim>\<open>repr\<close> of a container;
  \<^verbatim>\<open>json.dumps\<close>; the two readings of \<^verbatim>\<open>time()\<close> (line 87 and line 92); and the
  server behind the session, which answers a request with a response or fails with an
  exception of aiohttp. A subscriber acts on the state of the event manager only, and
  one call runs from its start to its end with no other call in between.
\<close>

record 'e env =
  emit_event :: "string \<Rightarrow> pyval \<Rightarrow> 'e \<Rightarrow> py_error option \<times> 'e"
  py_repr :: "pyval \<Rightarrow> string"
  dumps :: "dict \<Rightarrow> string"
  time_at_send :: real
  time_at_response :: real
  session_request :: "string \<Rightarrow> string \<Rightarrow> pyval \<Rightarrow> (string \<times> string) list \<Rightarrow> py_error + response"

text \<open>
  The state of one call: the manager, the dictionaries the call holds (an object is its
  index in \<open>heap\<close>; \<^verbatim>\<open>**params\<close> is object 0, made afresh for the call), and the
  effects so far.
\<close>

record 'e run =
  self :: "'e RequestManager"
  heap :: "dict list"
  trace :: "effect list"

definition logged :: "effect \<Rightarrow> 'e run \<Rightarrow> 'e run" where
  "logged x s = s\<lparr>trace := trace s @ [x]\<rparr>"

text \<open>
  \<^verbatim>\<open>try: await super().emit_event(name, payload) except: pass\<close> (lines 103 to 106 and
  134 to 137): whatever \<^verbatim>\<open>emit_event\<close> raises is dropped.
\<close>

definition emit_quietly :: "'e env \<Rightarrow> string \<Rightarrow> pyval \<Rightarrow> 'e run \<Rightarrow> 'e run" where
  "emit_quietly env name payload s =
     (let (raised, ev) = emit_event env name payload (events (self s));
          s' = logged (Emit name payload) (s\<lparr>self := (self s)\<lparr>events := ev\<rparr>\<rparr>)
      in case raised of None \<Rightarrow> s' | Some e \<Rightarrow> s')"

text \<open>\<^verbatim>\<open>__debug\<close>, lines 133 to 137.\<close>

definition debug :: "'e env \<Rightarrow> string \<Rightarrow> 'e run \<Rightarrow> 'e run" where
  "debug env message s = emit_quietly env ''debug'' (VStr (''[debug] '' @ message)) s"

text \<open>\<^verbatim>\<open>dict(d)\<close> makes a new object with the entries of \<open>d\<close>; \<^verbatim>\<open>d.pop(key, None)\<close> changes the object \<open>d\<close>.\<close>

definition dict_copy :: "nat \<Rightarrow> 'e run \<Rightarrow> nat \<times> 'e run" where
  "dict_copy d s = (length (heap s), s\<lparr>heap := heap s @ [heap s ! d]\<rparr>)"

definition heap_pop :: "nat \<Rightarrow> string \<Rightarrow> 'e run \<Rightarrow> 'e run" where
  "heap_pop d key s = s\<lparr>heap := (heap s)[d := dict_pop key (heap s ! d)]\<rparr>"

definition query_keys :: "string list" where
  "query_keys = [''page'', ''per_page'', ''filter'', ''include'', ''sort'']"

text \<open>
  Lines 66 to 78 of \<^verbatim>\<open>_make\<close>: the body, for the dictionary object \<open>params\<close>
  (\<^verbatim>\<open>**params\<close> is a dictionary, never \<^verbatim>\<open>None\<close>).
\<close>

definition select_body :: "'e env \<Rightarrow> nat \<Rightarrow> 'e run \<Rightarrow> pyval \<times> 'e run" where
  "select_body env params s =
     (let p = dict_get (heap s ! params) ''raw'' in
      if truthy p then (p, debug env ''sending raw byte payload'' s)
      else
        let (copy, s) = dict_copy params s;
            s = fold (heap_pop copy) query_keys s
        in if length (heap s ! copy) \<noteq> 0
           then (VStr (dumps env (heap s ! copy)), debug env ''sending json payload'' s)
           else (VNone, s))"

text \<open>Subscripting a decoded body: \<^verbatim>\<open>v[key]\<close> with a string key, and \<^verbatim>\<open>v[0]\<close>.\<close>

fun subscript_key :: "string \<Rightarrow> pyval \<Rightarrow> py_error + pyval" where
  "subscript_key k (VDict d) = (case map_of d k of None \<Rightarrow> Inl PyKeyError | Some v \<Rightarrow> Inr v)"
| "subscript_key k v = Inl PyTypeError"

fun subscript_0 :: "pyval \<Rightarrow> py_error + pyval" where
  "subscript_0 (VList xs) = (case xs of [] \<Rightarrow> Inl PyIndexError | x # _ \<Rightarrow> Inr x)"
| "subscript_0 (VTuple xs) = (case xs of [] \<Rightarrow> Inl PyIndexError | x # _ \<Rightarrow> Inr x)"
| "subscript_0 (VStr s) = (case s of [] \<Rightarrow> Inl PyIndexError | c # _ \<Rightarrow> Inr (VStr [c]))"
| "subscript_0 (VDict d) = Inl PyKeyError"
| "subscript_0 v = Inl PyTypeError"

text \<open>\<^verbatim>\<open>err['errors'][0]['code']\<close>, line 112.\<close>

definition error_code :: "pyval \<Rightarrow> py_error + pyval" where
  "error_code err =
     ebind (subscript_key ''errors'' err) (\<lambda>errors.
     ebind (subscript_0 errors) (\<lambda>first.
     subscript_key ''code'' first))"

text \<open>Lines 92 to 116 of \<^verbatim>\<open>_make\<close>: from the arrival of the response on.\<close>

definition handle_response ::
  "'e env \<Rightarrow> response \<Rightarrow> 'e run \<Rightarrow> (py_error + pyval) \<times> 'e run" where
  "handle_response env resp s =
     (let s = s\<lparr>self := (self s)\<lparr>ping := time_at_response env - time_at_send env\<rparr>\<rparr>;
          s = debug env ''ensuring session close before continuing'' s;
          s = logged SessionClose s;
          s = debug env (''received status: '' @ str_int (status resp)) s
      in if status resp = 204 then (Inr VNone, s)
         else if status resp = 200 \<or> status resp = 201 then
           (case json resp of
              Inl e \<Rightarrow> (Inl e, s)
            | Inr data \<Rightarrow> (Inr data, emit_quietly env ''receive'' data s))
         else if 400 \<le> status resp \<and> status resp < 500 then
           (case json resp of
              Inl e \<Rightarrow> (Inl e, s)
            | Inr err \<Rightarrow>
                (case error_code err of
                   Inl e \<Rightarrow> (Inl e, s)
                 | Inr code \<Rightarrow> (Inl (PteroAPIError code err), s)))
         else
           (Inl (RequestError
              (''pterodactyl api returned an invalid or unacceptable response (status: ''
                @ str_int (status resp) @ '')'')), s))"

definition http_methods :: "string list" where
  "http_methods = [''GET'', ''POST'', ''PATCH'', ''PUT'', ''DELETE'']"

text \<open>
  \<^verbatim>\<open>_make\<close>, lines 62 to 116, under the name \<open>make_request\<close> (every record has a
  constant \<open>make\<close> of its own). An exception raised inside \<^verbatim>\<open>async with\<close> leaves
  the block, which closes the session. The result is what the call returns or raises,
  with the state the call leaves.
\<close>

definition make_request ::
  "'e env \<Rightarrow> 'e RequestManager \<Rightarrow> string \<Rightarrow> string \<Rightarrow> dict \<Rightarrow> (py_error + pyval) \<times> 'e run" where
  "make_request env m path method params =
     (let s = \<lparr>self = m, heap = [params], trace = []\<rparr> in
      if method \<notin> set http_methods
      then (Inl (ValueError (''invalid http method '' @ [CHR 0x27] @ method @ [CHR 0x27])), s)
      else
        let (body, s) = select_body env 0 s in
        case validate_query (py_repr env) (heap s ! 0) of
          Inl e \<Rightarrow> (Inl e, s)
        | Inr query \<Rightarrow>
            (case api_type (self s) of
               None \<Rightarrow> (Inl PyAttributeError, s)
             | Some t \<Rightarrow>
                 let url = domain (self s) @ ''/api/'' @ lower t @ path @ query;
                     s = debug env ''attempting to start session'' s;
                     s = logged SessionOpen s;
                     s = debug env (''attemping to perform request to '' @ url) s
                 in (case get_headers (self s) of
                       Inl e \<Rightarrow> (Inl e, logged SessionClose s)
                     | Inr headers \<Rightarrow>
                         (let s = logged (Request (lower method) url body headers) s in
                          (case session_request env (lower method) url body headers of
                             Inl e \<Rightarrow> (Inl e, logged SessionClose s)
                           | Inr resp \<Rightarrow>
                               handle_response env resp (logged (Received resp) s))))))"

text \<open>The verbs, lines 118 to 131.\<close>

definition rget :: "'e env \<Rightarrow> 'e RequestManager \<Rightarrow> string \<Rightarrow> dict \<Rightarrow> (py_error + pyval) \<times> 'e run" where
  "rget env m path data = make_request env m path ''GET'' data"

definition rpost :: "'e env \<Rightarrow> 'e RequestManager \<Rightarrow> string \<Rightarrow> dict \<Rightarrow> (py_error + pyval) \<times> 'e run" where
  "rpost env m path data = make_request env m path ''POST'' data"

definition rpatch :: "'e env \<Rightarrow> 'e RequestManager \<Rightarrow> string \<Rightarrow> dict \<Rightarrow> (py_error + pyval) \<times> 'e run" where
  "rpatch env m path data = make_request env m path ''PATCH'' data"

definition rput :: "'e env \<Rightarrow> 'e RequestManager \<Rightarrow> string \<Rightarrow> dict \<Rightarrow> (py_error + pyval) \<times> 'e run" where
  "rput env m path data = make_request env m path ''PUT'' data"

definition rdelete :: "'e env \<Rightarrow> 'e RequestManager \<Rightarrow> string \<Rightarrow> (py_error + pyval) \<times> 'e run" where
  "rdelete env m path = make_request env m path ''DELETE'' []"

text \<open>
  \<^verbatim>\<open>on_receive\<close> and \<^verbatim>\<open>on_debug\<close>, lines 139 to 148: the function is added to the
  slot of the event and returned. \<open>add_slot\<close> is \<^verbatim>\<open>EventManager.add_event_slot\<close>.
\<close>

definition on_receive ::
  "(string \<Rightarrow> 'c \<Rightarrow> 'e \<Rightarrow> 'e) \<Rightarrow> 'e RequestManager \<Rightarrow> 'c \<Rightarrow> 'c \<times> 'e RequestManager" where
  "on_receive add_slot m func = (func, m\<lparr>events := add_slot ''receive'' func (events m)\<rparr>)"

definition on_debug ::
  "(string \<Rightarrow> 'c \<Rightarrow> 'e \<Rightarrow> 'e) \<Rightarrow> 'e RequestManager \<Rightarrow> 'c \<Rightarrow> 'c \<times> 'e RequestManager" where
  "on_debug add_slot m func = (func, m\<lparr>events := add_slot ''debug'' func (events m)\<rparr>)"

section \<open>What the statements below refer to\<close>

text \<open>
  The body as the specification words it: the raw override when there is a truthy one;
  otherwise the entries left after the five query keys are taken out, serialized, when
  there are any; otherwise none. It is compared with \<open>select_body\<close> below.
\<close>

definition body_of :: "'e env \<Rightarrow> dict \<Rightarrow> pyval" where
  "body_of env params =
     (if truthy (dict_get params ''raw'') then dict_get params ''raw''
      else if filter (\<lambda>kv. fst kv \<notin> set query_keys) params = [] then VNone
      else VStr (dumps env (filter (\<lambda>kv. fst kv \<notin> set query_keys) params)))"

text \<open>A trace with nothing in it but debug events and the opening of the session.\<close>

definition quiet :: "effect list \<Rightarrow> bool" where
  "quiet tr = (\<forall>x\<in>set tr. is_emit ''debug'' x \<or> x = SessionOpen)"

subsection \<open>The event manager\<close>

text \<open>
  Modelled from the spec: \<^verbatim>\<open>EventManager\<close> (Pytero/events.py, with \<^verbatim>\<open>add_event_slot\<close>
  and \<^verbatim>\<open>emit_event\<close>) is not among the sources. The specification (4.1) gives it a
  mapping from an event name to the ordered list of its subscribers; subscribing
  appends the callback to the list of its event; emitting invokes every callback of the
  event in registration order with the payload, a callback that fails neither stops
  the emission to the later ones nor propagates to the emitter, and an event without
  subscribers is a silent no-op. A callback is its outcome on a payload: \<open>True\<close> when it
  raises. \<open>invoked\<close> records every invocation: the event, the position of the
  subscriber, the payload, and whether the callback raised.
\<close>

type_synonym callback = "pyval \<Rightarrow> bool"

record bus =
  slots :: "string \<Rightarrow> callback list"
  invoked :: "(string \<times> nat \<times> pyval \<times> bool) list"

definition empty_bus :: bus where
  "empty_bus = \<lparr>slots = (\<lambda>name. []), invoked = []\<rparr>"

definition add_event_slot :: "string \<Rightarrow> callback \<Rightarrow> bus \<Rightarrow> bus" where
  "add_event_slot name cb b = b\<lparr>slots := (slots b)(name := slots b name @ [cb])\<rparr>"

fun run_callbacks ::
  "string \<Rightarrow> pyval \<Rightarrow> nat \<Rightarrow> callback list \<Rightarrow> (string \<times> nat \<times> pyval \<times> bool) list" where
  "run_callbacks name payload i [] = []"
| "run_callbacks name payload i (cb # cbs) =
     (name, i, payload, cb payload) # run_callbacks name payload (Suc i) cbs"

definition bus_emit :: "string \<Rightarrow> pyval \<Rightarrow> bus \<Rightarrow> py_error option \<times> bus" where
  "bus_emit name payload b =
     (None, b\<lparr>invoked := invoked b @ run_callbacks name payload 0 (slots b name)\<rparr>)"

text \<open>A manager after \<^verbatim>\<open>on_receive(f)\<close> and then \<^verbatim>\<open>on_receive(g)\<close>.\<close>

definition with_receivers ::
  "bus RequestManager \<Rightarrow> callback \<Rightarrow> callback \<Rightarrow> bus RequestManager" where
  "with_receivers m f g =
     snd (on_receive add_event_slot (snd (on_receive add_event_slot m f)) g)"

subsection \<open>Examples\<close>

text \<open>
  A manager, and an environment whose \<^verbatim>\<open>emit_event\<close> always raises and whose server
  answers every request with the given response.
\<close>

definition example_env :: "response \<Rightarrow> unit env" where
  "example_env resp =
     \<lparr>emit_event = (\<lambda>name payload e. (Some (LibraryError ''callback failed''), e)),
      py_repr = (\<lambda>v. []),
      dumps = (\<lambda>d. ''{'' @ join '','' (map fst d) @ ''}''),
      time_at_send = 10,
      time_at_response = 12,
      session_request = (\<lambda>method url body headers. Inr resp)\<rparr>"

definition example_manager :: "unit RequestManager" where
  "example_manager = init () (Some ''Application'') ''https://panel.example'' (Some ''key'')"

definition bus_env :: "response \<Rightarrow> bus env" where
  "bus_env resp =
     \<lparr>emit_event = bus_emit,
      py_repr = (\<lambda>v. []),
      dumps = (\<lambda>d. ''{'' @ join '','' (map fst d) @ ''}''),
      time_at_send = 10,
      time_at_response = 12,
      session_request = (\<lambda>method url body headers. Inr resp)\<rparr>"

definition bus_manager :: "bus RequestManager" where
  "bus_manager = init empty_bus (Some ''Application'') ''https://panel.example'' (Some ''key'')"

definition failing_callback :: callback where
  "failing_callback payload = True"

definition quiet_callback :: callback where
  "quiet_callback payload = False"

definition ok_payload :: pyval where
  "ok_payload = VDict [(''id'', VInt 1)]"

definition ok_response :: response where
  "ok_response = \<lparr>status = 200, json = Inr ok_payload\<rparr>"

definition no_content_response :: response where
  "no_content_response = \<lparr>status = 204, json = Inl (LibraryError ''ContentTypeError'')\<rparr>"

definition not_found_body :: pyval where
  "not_found_body = VDict [(''errors'', VList [VDict [(''code'', VStr ''NotFound'')]])]"

definition not_found_response :: response where
  "not_found_response = \<lparr>status = 404, json = Inr not_found_body\<rparr>"

definition html_not_found_response :: response where
  "html_not_found_response = \<lparr>status = 404, json = Inl (LibraryError ''ContentTypeError'')\<rparr>"

definition no_code_response :: response where
  "no_code_response = \<lparr>status = 404, json = Inr (VDict [])\<rparr>"

definition unavailable_response :: response where
  "unavailable_response = \<lparr>status = 503, json = Inl (LibraryError ''ContentTypeError'')\<rparr>"

definition undecodable_ok_response :: response where
  "undecodable_ok_response = \<lparr>status = 200, json = Inl (LibraryError ''ContentTypeError'')\<rparr>"

text \<open>An environment whose clock is set back while the request is under way.\<close>

definition set_back_env :: "response \<Rightarrow> unit env" where
  "set_back_env resp =
     \<lparr>emit_event = (\<lambda>name payload e. (None, e)),
      py_repr = (\<lambda>v. []),
      dumps = (\<lambda>d. ''{'' @ join '','' (map fst d) @ ''}''),
      time_at_send = 12,
      time_at_response = 10,
      session_request = (\<lambda>method url body headers. Inr resp)\<rparr>"

definition example_params :: dict where
  "example_params = [(''page'', VInt 2), (''name'', VStr ''x'')]"




definition falsy_query :: dict where
  "falsy_query =
     [(''page'', VInt 0), (''per_page'', VInt 0), (''filter'', VTuple []),
      (''include'', VList []), (''sort'', VStr [])]"

section \<open>Properties of the query string\<close>

lemmas step_defs =
  page_step_def per_page_step_def filter_step_def include_step_def sort_step_def


lemma validate_query_empty: "validate_query r [] = Inr []"
  by (simp add: validate_query_def query_clauses_def step_defs dict_get_def ebind_def
      query_string_def)

lemma dict_get_pop: "dict_get (dict_pop k q) k' = (if k' = k then VNone else dict_get q k')"
  by (induction q) (auto simp: dict_get_def dict_pop_def)

subsection \<open>The range check of page and per_page\<close>

lemma page_in_range:
  assumes "dict_get q ''page'' = VInt n" and "1 \<le> n" and "n \<le> 50"
  shows "page_step q res = Inr (res @ [''page='' @ str_int n])"
  using assms by (simp add: page_step_def)

lemma per_page_in_range:
  assumes "dict_get q ''per_page'' = VInt n" and "1 \<le> n" and "n \<le> 100"
  shows "per_page_step q res = Inr (res @ [''per_page='' @ str_int n])"
  using assms by (simp add: per_page_step_def)

lemma page_above_range:
  assumes "dict_get q ''page'' = VInt n" and "50 < n"
  shows "validate_query r q = Inl (ValidationError ''page number must be between 1 and 50'')"
  using assms by (simp add: validate_query_def query_clauses_def page_step_def ebind_def)

text \<open>
  C1. The claim: a page in 1..50 and a per_page in 1..100 give their clause, and every
  supplied value outside the range fails with ValidationError. The code rejects only
  values above the range: \<^verbatim>\<open>1 < p > 50\<close> is \<^verbatim>\<open>1 < p and p > 50\<close>, so a negative
  page passes the check its own message describes (must be between 1 and 50) and is
  written into the query string. The theorem evaluates the code at page = -5 and at
  per_page = -1.
\<close>

theorem negative_page_accepted:
  "validate_query r [(''page'', VInt (- 5))] = Inr ''?page=-5'' \<and>
   validate_query r [(''per_page'', VInt (- 1))] = Inr ''?per_page=-1''"
  by (simp add: validate_query_def query_clauses_def step_defs dict_get_def ebind_def
      query_string_def str_int_def str_nat.simps digit_char_def)

subsection \<open>The order of the clauses\<close>

























subsection \<open>Falsy options\<close>

text \<open>
  C10. An option whose value is falsy (0, an empty sequence, an empty tuple, an empty
  string, \<^verbatim>\<open>None\<close>, or no value at all) is skipped: its step leaves \<^verbatim>\<open>res\<close> as it
  is and raises nothing, so no clause is produced and no range is checked, and the
  whole result is the one the dictionary without that option gives.
\<close>

theorem falsy_option_skipped:
  "(\<not> truthy (dict_get query ''page'') \<longrightarrow> page_step query res = Inr res) \<and>
   (\<not> truthy (dict_get query ''per_page'') \<longrightarrow> per_page_step query res = Inr res) \<and>
   (\<not> truthy (dict_get query ''filter'') \<longrightarrow> filter_step r query res = Inr res) \<and>
   (\<not> truthy (dict_get query ''include'') \<longrightarrow> include_step query res = Inr res) \<and>
   (\<not> truthy (dict_get query ''sort'') \<longrightarrow> sort_step r query res = Inr res) \<and>
   (k \<in> set query_keys \<and> \<not> truthy (dict_get query k) \<longrightarrow>
      validate_query r query = validate_query r (dict_pop k query)) \<and>
   \<not> truthy (VInt 0) \<and> \<not> truthy (VList []) \<and> \<not> truthy (VTuple []) \<and>
   \<not> truthy (VStr []) \<and> \<not> truthy VNone"
proof -
  have whole: "k \<in> set query_keys \<Longrightarrow> \<not> truthy (dict_get query k) \<Longrightarrow>
      validate_query r query = validate_query r (dict_pop k query)"
    by (auto simp: query_keys_def validate_query_def query_clauses_def step_defs dict_get_pop)
  show ?thesis
    using whole by (simp add: step_defs)
qed

lemma falsy_query_values:
  "dict_get falsy_query ''page'' = VInt 0 \<and> dict_get falsy_query ''per_page'' = VInt 0 \<and>
   dict_get falsy_query ''filter'' = VTuple [] \<and> dict_get falsy_query ''include'' = VList [] \<and>
   dict_get falsy_query ''sort'' = VStr []"
  by (simp add: falsy_query_def dict_get_def)

lemma falsy_query_popped:
  "validate_query r (dict_pop ''page'' falsy_query) = Inr []"
  by (simp add: falsy_query_def dict_pop_def validate_query_def query_clauses_def step_defs
      dict_get_def ebind_def query_string_def)

theorem falsy_option_skipped_witness:
  "page_step falsy_query [] = Inr [] \<and> per_page_step falsy_query [] = Inr [] \<and>
   filter_step (\<lambda>v. []) falsy_query [] = Inr [] \<and> include_step falsy_query [] = Inr [] \<and>
   sort_step (\<lambda>v. []) falsy_query [] = Inr [] \<and>
   validate_query (\<lambda>v. []) falsy_query = Inr []"
  using falsy_option_skipped [of falsy_query "[]" "\<lambda>v. []" "''page''"]
    falsy_query_values falsy_query_popped [of "\<lambda>v. []"]
  by (simp add: query_keys_def)

section \<open>Properties of a call\<close>

lemma logged_simps [simp]:
  "trace (logged x s) = trace s @ [x]" "heap (logged x s) = heap s" "self (logged x s) = self s"
  by (simp_all add: logged_def)

lemma emit_quietly_simps [simp]:
  "trace (emit_quietly env n p s) = trace s @ [Emit n p]"
  "heap (emit_quietly env n p s) = heap s"
  "self (emit_quietly env n p s) =
     (self s)\<lparr>events := snd (emit_event env n p (events (self s)))\<rparr>"
  by (simp_all add: emit_quietly_def Let_def split: prod.splits option.splits)

lemma debug_simps [simp]:
  "trace (debug env msg s) = trace s @ [Emit ''debug'' (VStr (''[debug] '' @ msg))]"
  "heap (debug env msg s) = heap s"
  "self (debug env msg s) =
     (self s)\<lparr>events := snd (emit_event env ''debug'' (VStr (''[debug] '' @ msg)) (events (self s)))\<rparr>"
  by (simp_all add: debug_def)

lemma fold_heap_pop:
  "d < length (heap s) \<Longrightarrow>
   fold (heap_pop d) ks s = s\<lparr>heap := (heap s)[d := fold dict_pop ks (heap s ! d)]\<rparr>"
  by (induction ks arbitrary: s) (simp_all add: heap_pop_def)

lemma fold_dict_pop: "fold dict_pop ks d = filter (\<lambda>kv. fst kv \<notin> set ks) d"
  by (induction ks arbitrary: d) (auto simp: dict_pop_def intro: filter_cong)

lemma select_body_fst:
  "heap s \<noteq> [] \<Longrightarrow> fst (select_body env 0 s) = body_of env (heap s ! 0)"
  by (simp add: select_body_def body_of_def Let_def dict_copy_def fold_heap_pop fold_dict_pop)

lemma select_body_heap:
  "heap s \<noteq> [] \<Longrightarrow> heap (snd (select_body env 0 s)) ! 0 = heap s ! 0"
  by (simp add: select_body_def Let_def dict_copy_def fold_heap_pop nth_append)

lemma handle_response_trace_data:
  assumes "status resp = 200 \<or> status resp = 201" and "json resp = Inr data"
  shows "trace (snd (handle_response env resp s)) =
     trace s @
     [Emit ''debug'' (VStr ''[debug] ensuring session close before continuing''),
      SessionClose,
      Emit ''debug'' (VStr (''[debug] received status: '' @ str_int (status resp))),
      Emit ''receive'' data]"
  using assms by (auto simp: handle_response_def Let_def)

lemma handle_response_trace_plain:
  assumes "\<not> (status resp = 200 \<or> status resp = 201) \<or> json resp = Inl e"
  shows "trace (snd (handle_response env resp s)) =
     trace s @
     [Emit ''debug'' (VStr ''[debug] ensuring session close before continuing''),
      SessionClose,
      Emit ''debug'' (VStr (''[debug] received status: '' @ str_int (status resp)))]"
  using assms by (auto simp: handle_response_def Let_def split: sum.splits)

lemma handle_response_received:
  "Received r \<in> set (trace (snd (handle_response env resp s))) \<longleftrightarrow>
   Received r \<in> set (trace s)"
proof (cases "status resp = 200 \<or> status resp = 201")
  case True
  then show ?thesis
  proof (cases "json resp")
    case (Inl e)
    then show ?thesis by (simp add: handle_response_trace_plain [of resp e])
  next
    case (Inr data)
    with True show ?thesis by (simp add: handle_response_trace_data [of resp data])
  qed
next
  case False
  then show ?thesis by (simp add: handle_response_trace_plain)
qed

lemma handle_response_ping:
  "ping (self (snd (handle_response env resp s))) = time_at_response env - time_at_send env"
  by (simp add: handle_response_def Let_def split: sum.splits)

lemma handle_response_heap: "heap (snd (handle_response env resp s)) = heap s"
  by (simp add: handle_response_def Let_def split: sum.splits)

lemma handle_response_result:
  "fst (handle_response env resp s) =
     (if status resp = 204 then Inr VNone
      else if status resp = 200 \<or> status resp = 201 then json resp
      else if 400 \<le> status resp \<and> status resp < 500 then
        (case json resp of
           Inl e \<Rightarrow> Inl e
         | Inr err \<Rightarrow>
             (case error_code err of
                Inl e \<Rightarrow> Inl e
              | Inr code \<Rightarrow> Inl (PteroAPIError code err)))
      else Inl (RequestError
             (''pterodactyl api returned an invalid or unacceptable response (status: ''
               @ str_int (status resp) @ '')'')))"
  by (simp add: handle_response_def Let_def split: sum.splits)

lemma make_invalid_method:
  "method \<notin> set http_methods \<Longrightarrow>
   make_request env m path method params =
     (Inl (ValueError (''invalid http method '' @ [CHR 0x27] @ method @ [CHR 0x27])),
      \<lparr>self = m, heap = [params], trace = []\<rparr>)"
  by (simp add: make_request_def)

lemma quiet_simps [simp]:
  "quiet []"
  "quiet (tr @ [Emit ''debug'' p]) = quiet tr"
  "quiet (tr @ [SessionOpen]) = quiet tr"
  by (auto simp: quiet_def)

lemma select_body_shape:
  assumes step: "\<And>n p e. P e \<Longrightarrow> P (snd (emit_event env n p e))"
    and "P (events (self s))" and "heap s \<noteq> []" and "quiet (trace s)"
  shows "quiet (trace (snd (select_body env 0 s))) \<and>
         P (events (self (snd (select_body env 0 s)))) \<and>
         (self (snd (select_body env 0 s)))\<lparr>events := events (self s)\<rparr> = self s"
  using assms(2-) step [of "events (self s)"]
  by (auto simp: select_body_def Let_def dict_copy_def fold_heap_pop)

lemma debug_shape:
  assumes step: "\<And>n p e. P e \<Longrightarrow> P (snd (emit_event env n p e))"
    and "P (events (self s))"
  shows "P (events (self (debug env msg s))) \<and>
         (self (debug env msg s))\<lparr>events := events (self s)\<rparr> = self s"
  using assms(2) step [of "events (self s)"] by simp

lemma make_paths:
  assumes valid: "method \<in> set http_methods"
    and step: "\<And>n p e. P e \<Longrightarrow> P (snd (emit_event env n p e))"
    and init: "P (events m)"
  obtains
    (rejected) e s where
      "make_request env m path method params = (Inl e, s)"
      "quiet (trace s)" "heap s ! 0 = params"
      "(self s)\<lparr>events := events m\<rparr> = m" "P (events (self s))"
  | (no_headers) e s where
      "make_request env m path method params = (Inl e, logged SessionClose s)"
      "quiet (trace s)" "heap s ! 0 = params"
      "(self s)\<lparr>events := events m\<rparr> = m" "P (events (self s))"
  | (failed) e s url headers where
      "make_request env m path method params =
         (Inl e, logged SessionClose
            (logged (Request (lower method) url (body_of env params) headers) s))"
      "quiet (trace s)" "heap s ! 0 = params"
      "(self s)\<lparr>events := events m\<rparr> = m" "P (events (self s))"
  | (exchange) resp s url headers where
      "make_request env m path method params =
         handle_response env resp
           (logged (Received resp)
              (logged (Request (lower method) url (body_of env params) headers) s))"
      "quiet (trace s)" "heap s ! 0 = params"
      "(self s)\<lparr>events := events m\<rparr> = m" "P (events (self s))"
proof -
  let ?s = "\<lparr>self = m, heap = [params], trace = []\<rparr>"
  obtain body s1 where sb: "select_body env 0 ?s = (body, s1)"
    by (cases "select_body env 0 ?s")
  from select_body_fst [of ?s env] sb have body: "body = body_of env params"
    by simp
  from select_body_heap [of ?s env] sb have heap1: "heap s1 ! 0 = params"
    by simp
  from select_body_shape [of P env ?s, OF step] init sb
  have s1: "quiet (trace s1)" "P (events (self s1))" "(self s1)\<lparr>events := events m\<rparr> = m"
    by simp_all
  show ?thesis
  proof (cases "validate_query (py_repr env) params")
    case (Inl e)
    with valid sb heap1 have mk1: "make_request env m path method params = (Inl e, s1)"
      by (simp add: make_request_def)
    show ?thesis by (rule rejected [OF mk1 s1(1) heap1 s1(3) s1(2)])
  next
    case query: (Inr query)
    show ?thesis
    proof (cases "api_type (self s1)")
      case None
      with valid sb heap1 query
      have mk1: "make_request env m path method params = (Inl PyAttributeError, s1)"
        by (simp add: make_request_def)
      show ?thesis by (rule rejected [OF mk1 s1(1) heap1 s1(3) s1(2)])
    next
      case (Some t)
      define url where "url = domain (self s1) @ ''/api/'' @ lower t @ path @ query"
      define s2 where "s2 = debug env ''attempting to start session'' s1"
      define s3 where "s3 = logged SessionOpen s2"
      define s4 where "s4 = debug env (''attemping to perform request to '' @ url) s3"
      from debug_shape [of P env s1, OF step] s1
      have s2: "P (events (self s2))" "(self s2)\<lparr>events := events m\<rparr> = m"
        by (simp_all add: s2_def)
      from debug_shape [of P env s3, OF step] s2
      have s4: "P (events (self s4))" "(self s4)\<lparr>events := events m\<rparr> = m"
        by (simp_all add: s4_def s3_def)
      have tr4: "quiet (trace s4)" and heap4: "heap s4 ! 0 = params"
        using s1 heap1 by (auto simp: s4_def s3_def s2_def quiet_def)
      have mk: "make_request env m path method params =
        (case get_headers (self s4) of
           Inl e \<Rightarrow> (Inl e, logged SessionClose s4)
         | Inr headers \<Rightarrow>
             (case session_request env (lower method) url body headers of
                Inl e \<Rightarrow>
                  (Inl e, logged SessionClose (logged (Request (lower method) url body headers) s4))
              | Inr resp \<Rightarrow>
                  handle_response env resp
                    (logged (Received resp) (logged (Request (lower method) url body headers) s4))))"
        using valid sb heap1 query Some
        by (simp add: make_request_def Let_def s4_def s3_def s2_def url_def split: sum.splits)
      show ?thesis
      proof (cases "get_headers (self s4)")
        case (Inl e)
        with mk have mk1: "make_request env m path method params = (Inl e, logged SessionClose s4)"
          by simp
        show ?thesis by (rule no_headers [OF mk1 tr4 heap4 s4(2) s4(1)])
      next
        case headers: (Inr headers)
        show ?thesis
        proof (cases "session_request env (lower method) url body headers")
          case (Inl e)
          with mk headers body have mk1: "make_request env m path method params =
            (Inl e, logged SessionClose
               (logged (Request (lower method) url (body_of env params) headers) s4))"
            by simp
          show ?thesis by (rule failed [OF mk1 tr4 heap4 s4(2) s4(1)])
        next
          case (Inr resp)
          with mk headers body have mk1: "make_request env m path method params =
            handle_response env resp
              (logged (Received resp)
                 (logged (Request (lower method) url (body_of env params) headers) s4))"
            by simp
          show ?thesis by (rule exchange [OF mk1 tr4 heap4 s4(2) s4(1)])
        qed
      qed
    qed
  qed
qed

lemma quiet_not_received: "quiet tr \<Longrightarrow> Received resp \<notin> set tr"
  by (auto simp: quiet_def)


lemma debug_not_receive: "is_emit ''debug'' x \<Longrightarrow> \<not> is_emit ''receive'' x"
  by (cases x) auto

lemma quiet_no_receive: "quiet tr \<Longrightarrow> filter (is_emit ''receive'') tr = []"
  by (auto simp: quiet_def filter_empty_conv dest: debug_not_receive)

lemma make_exchange:
  assumes recv: "Received resp \<in> set (trace (snd (make_request env m path method params)))"
    and step: "\<And>n p e. P e \<Longrightarrow> P (snd (emit_event env n p e))"
    and init: "P (events m)"
  obtains s url headers where
    "make_request env m path method params =
       handle_response env resp
         (logged (Received resp)
            (logged (Request (lower method) url (body_of env params) headers) s))"
    "quiet (trace s)" "heap s ! 0 = params"
    "(self s)\<lparr>events := events m\<rparr> = m" "P (events (self s))"
proof -
  have valid: "method \<in> set http_methods"
    using recv by (cases "method \<in> set http_methods") (simp_all add: make_invalid_method)
  show ?thesis
    apply (rule make_paths [OF valid step init, where path = path and params = params])
    subgoal by assumption
    subgoal premises p for e s
      using recv p by (simp add: quiet_not_received)
    subgoal premises p for e s
      using recv p by (simp add: quiet_not_received)
    subgoal premises p for e s url headers
      using recv p by (simp add: quiet_not_received)
    subgoal premises p for resp' s url headers
    proof -
      from recv p have "resp' = resp"
        by (auto simp: handle_response_received quiet_not_received)
      with p that show ?thesis by blast
    qed
    done
qed

lemma example_exchange:
  "Received resp \<in> set (trace (snd (make_request (example_env resp) example_manager path ''GET'' [])))"
  by (simp add: make_request_def example_env_def example_manager_def init_def http_methods_def
      select_body_def dict_copy_def heap_pop_def query_keys_def dict_pop_def dict_get_def
      validate_query_empty get_headers_def Let_def handle_response_received)

lemma exchange_no_receive:
  assumes "Received resp \<in> set (trace (snd (make_request env m path method params)))"
    and "\<not> (status resp = 200 \<or> status resp = 201) \<or> json resp = Inl e"
  shows "filter (is_emit ''receive'') (trace (snd (make_request env m path method params))) = []"
proof -
  from assms(1) obtain s url headers where
    mk: "make_request env m path method params =
       handle_response env resp
         (logged (Received resp)
            (logged (Request (lower method) url (body_of env params) headers) s))"
    and quiet: "quiet (trace s)"
    by (rule make_exchange [where P = "\<lambda>e. True"]) simp_all
  from quiet have "filter (is_emit ''receive'') (trace s) = []"
    by (rule quiet_no_receive)
  then show ?thesis
    by (simp add: mk handle_response_trace_plain [OF assms(2)])
qed

text \<open>
  C3, as amended. Whenever a call of \<^verbatim>\<open>_make\<close> completes an exchange (the response
  \<open>resp\<close> arrived): with status 204 the call returns \<^verbatim>\<open>None\<close> and no receive event
  is emitted; with status 200 or 201 and a body that \<^verbatim>\<open>response.json()\<close> decodes to
  \<open>data\<close>, the call emits exactly one receive event, carrying \<open>data\<close>, and returns
  \<open>data\<close>; with status 200 or 201 and a body that \<^verbatim>\<open>response.json()\<close> fails on, the
  call raises that failure and emits no receive event.
\<close>

theorem response_success:
  assumes "Received resp \<in> set (trace (snd (make_request env m path method params)))"
  shows "(status resp = 204 \<longrightarrow>
            fst (make_request env m path method params) = Inr VNone \<and>
            filter (is_emit ''receive'') (trace (snd (make_request env m path method params))) = []) \<and>
         ((status resp = 200 \<or> status resp = 201) \<longrightarrow>
            (\<forall>data. json resp = Inr data \<longrightarrow>
               fst (make_request env m path method params) = Inr data \<and>
               filter (is_emit ''receive'') (trace (snd (make_request env m path method params))) =
                 [Emit ''receive'' data]) \<and>
            (\<forall>e. json resp = Inl e \<longrightarrow>
               fst (make_request env m path method params) = Inl e \<and>
               filter (is_emit ''receive'') (trace (snd (make_request env m path method params))) =
                 []))"
proof -
  from assms obtain s url headers where
    mk: "make_request env m path method params =
       handle_response env resp
         (logged (Received resp)
            (logged (Request (lower method) url (body_of env params) headers) s))"
    and quiet: "quiet (trace s)"
    by (rule make_exchange [where P = "\<lambda>e. True"]) simp_all
  from quiet have none: "filter (is_emit ''receive'') (trace s) = []"
    by (rule quiet_no_receive)
  have plain: "filter (is_emit ''receive'') (trace (snd (make_request env m path method params))) = []"
    if "\<not> (status resp = 200 \<or> status resp = 201) \<or> json resp = Inl e" for e
    using assms that by (rule exchange_no_receive)
  have decoded: "filter (is_emit ''receive'') (trace (snd (make_request env m path method params))) =
      [Emit ''receive'' data]"
    if "status resp = 200 \<or> status resp = 201" and "json resp = Inr data" for data
    using none by (simp add: mk handle_response_trace_data [OF that])
  have result: "fst (make_request env m path method params) =
      (if status resp = 204 then Inr VNone else json resp)"
    if "status resp = 204 \<or> status resp = 200 \<or> status resp = 201"
    using that by (auto simp: mk handle_response_result)
  show ?thesis
    using plain decoded result by auto
qed

text \<open>
  C2, as amended. Whenever a call completes an exchange whose status is none of 204, 200
  and 201: with a status in 400..499, a body that decodes to \<open>err\<close> with
  \<^verbatim>\<open>err['errors'][0]['code']\<close> equal to \<open>code\<close> raises \<open>PteroAPIError code err\<close>, a
  body that decodes but has no such entry raises the error of the failed lookup, and a
  body that is not JSON raises the decoder's own exception; with any other status the
  call raises \<open>RequestError\<close> with the status in its message.
\<close>

theorem response_error:
  assumes "Received resp \<in> set (trace (snd (make_request env m path method params)))"
    and "status resp \<noteq> 204" and "status resp \<noteq> 200" and "status resp \<noteq> 201"
  shows "(400 \<le> status resp \<and> status resp < 500 \<longrightarrow>
            (\<forall>err code. json resp = Inr err \<and> error_code err = Inr code \<longrightarrow>
               fst (make_request env m path method params) = Inl (PteroAPIError code err)) \<and>
            (\<forall>err e. json resp = Inr err \<and> error_code err = Inl e \<longrightarrow>
               fst (make_request env m path method params) = Inl e) \<and>
            (\<forall>e. json resp = Inl e \<longrightarrow> fst (make_request env m path method params) = Inl e)) \<and>
         (\<not> (400 \<le> status resp \<and> status resp < 500) \<longrightarrow>
            fst (make_request env m path method params) =
              Inl (RequestError
                (''pterodactyl api returned an invalid or unacceptable response (status: ''
                  @ str_int (status resp) @ '')'')))"
proof -
  from assms(1) obtain s url headers where
    mk: "make_request env m path method params =
       handle_response env resp
         (logged (Received resp)
            (logged (Request (lower method) url (body_of env params) headers) s))"
    by (rule make_exchange [where P = "\<lambda>e. True"]) simp_all
  show ?thesis
    using assms(2-) by (simp add: mk handle_response_result)
qed

text \<open>
  C8, as amended. \<open>ping\<close> is -1 on a manager that \<^verbatim>\<open>__init__\<close> has just set up. After every call
  that completes an exchange, whatever the call returns or raises, \<open>ping\<close> is the
  second reading of the clock minus the first, which is not negative when the clock has
  not been set back between the two readings.
\<close>

theorem ping_after_exchange:
  "ping (init ev t d a) = - 1 \<and>
   (Received resp \<in> set (trace (snd (make_request env m path method params))) \<longrightarrow>
      ping (self (snd (make_request env m path method params))) =
        time_at_response env - time_at_send env \<and>
      (time_at_send env \<le> time_at_response env \<longrightarrow>
         0 \<le> ping (self (snd (make_request env m path method params)))))"
proof (intro conjI impI)
  show "ping (init ev t d a) = - 1"
    by (simp add: init_def)
next
  assume "Received resp \<in> set (trace (snd (make_request env m path method params)))"
  then obtain s url headers where
    mk: "make_request env m path method params =
       handle_response env resp
         (logged (Received resp)
            (logged (Request (lower method) url (body_of env params) headers) s))"
    by (rule make_exchange [where P = "\<lambda>e. True"]) simp_all
  then show p: "ping (self (snd (make_request env m path method params))) =
      time_at_response env - time_at_send env"
    by (simp add: handle_response_ping)
  assume "time_at_send env \<le> time_at_response env"
  with p show "0 \<le> ping (self (snd (make_request env m path method params)))"
    by simp
qed


lemma handle_response_events:
  assumes step: "\<And>n p e. P e \<Longrightarrow> P (snd (emit_event env n p e))"
    and "P (events (self s))"
    and "status resp = 200 \<or> status resp = 201" and "json resp = Inr data"
  shows "\<exists>e. P e \<and>
           events (self (snd (handle_response env resp s))) =
             snd (emit_event env ''receive'' data e)"
proof -
  define e1 where "e1 = snd (emit_event env ''debug''
      (VStr ''[debug] ensuring session close before continuing'') (events (self s)))"
  define e2 where "e2 = snd (emit_event env ''debug''
      (VStr (''[debug] received status: '' @ str_int (status resp))) e1)"
  have "P e1" unfolding e1_def using assms(2) by (rule step)
  then have "P e2" unfolding e2_def by (rule step)
  moreover have "events (self (snd (handle_response env resp s))) =
      snd (emit_event env ''receive'' data e2)"
    using assms(3,4) by (auto simp: handle_response_def Let_def e1_def e2_def)
  ultimately show ?thesis by blast
qed

text \<open>
  C9. After every call of \<^verbatim>\<open>_make\<close>, returning or raising, the dictionary object
  \<^verbatim>\<open>params\<close> (object 0 of the heap) holds the entries it held before: the keys are
  popped from the copy, a different object.
\<close>

theorem params_unchanged: "heap (snd (make_request env m path method params)) ! 0 = params"
proof (cases "method \<in> set http_methods")
  case False
  then show ?thesis by (simp add: make_invalid_method)
next
  case True
  have step: "\<And>n p e. True \<Longrightarrow> True" by simp
  show ?thesis
    apply (rule make_paths [OF True, where P = "\<lambda>e. True" and env = env and m = m
          and path = path and params = params])
    subgoal by simp
    subgoal by simp
    subgoal premises p for e s using p by simp
    subgoal premises p for e s using p by simp
    subgoal premises p for e s url headers using p by simp
    subgoal premises p for resp s url headers using p by (simp add: handle_response_heap)
    done
qed

theorem params_unchanged_witness:
  "heap (snd (make_request (example_env ok_response) example_manager ''/servers'' ''GET''
      example_params)) ! 0 = example_params"
  using params_unchanged [of "example_env ok_response" example_manager "''/servers''" "''GET''"
      example_params]
  by simp


text \<open>
  C6. A method that is not one of GET, POST, PATCH, PUT, DELETE makes \<^verbatim>\<open>_make\<close> raise
  \<open>ValueError\<close> with nothing done before: no event emitted, no session opened, no
  request issued, and the manager as it was.
\<close>

theorem invalid_method_rejected:
  assumes "method \<notin> set http_methods"
  shows "fst (make_request env m path method params) =
           Inl (ValueError (''invalid http method '' @ [CHR 0x27] @ method @ [CHR 0x27])) \<and>
         trace (snd (make_request env m path method params)) = [] \<and>
         self (snd (make_request env m path method params)) = m"
  using assms by (simp add: make_request_def)

lemma with_receivers_slots:
  "slots (events (with_receivers m f g)) ''receive'' = slots (events m) ''receive'' @ [f, g]"
  by (simp add: with_receivers_def on_receive_def add_event_slot_def)

lemma bus_emit_slots: "slots (snd (bus_emit n p e)) = slots e"
  by (simp add: bus_emit_def)

text \<open>
  C7. Whatever \<^verbatim>\<open>emit_event\<close> raises, for a debug or a receive event, a call whose
  response has status 200 or 201 and a body that decodes to \<open>data\<close> returns \<open>data\<close>.
  With the event manager of the specification and two receive subscribers, the first
  of which raises on \<open>data\<close>, the call returns \<open>data\<close> and both subscribers have been
  invoked with it, in the order of their registration.
\<close>

theorem callback_failure_contained:
  "((status resp = 200 \<or> status resp = 201) \<and> json resp = Inr data \<and>
    Received resp \<in> set (trace (snd (make_request env m path method params))) \<longrightarrow>
      fst (make_request env m path method params) = Inr data) \<and>
   (emit_event benv = bus_emit \<and> f data \<and> slots (events bm) ''receive'' = [] \<and>
    (status resp = 200 \<or> status resp = 201) \<and> json resp = Inr data \<and>
    Received resp \<in>
      set (trace (snd (make_request benv (with_receivers bm f g) path method params))) \<longrightarrow>
      fst (make_request benv (with_receivers bm f g) path method params) = Inr data \<and>
      (\<exists>pre. invoked (events (self (snd
                 (make_request benv (with_receivers bm f g) path method params)))) =
               pre @ [(''receive'', 0, data, True), (''receive'', 1, data, g data)]))"
proof (intro conjI impI; (elim conjE)?)
  assume ok: "status resp = 200 \<or> status resp = 201" and js: "json resp = Inr data"
    and recv: "Received resp \<in> set (trace (snd (make_request env m path method params)))"
  from recv obtain s url headers where
    mk: "make_request env m path method params =
       handle_response env resp
         (logged (Received resp)
            (logged (Request (lower method) url (body_of env params) headers) s))"
    by (rule make_exchange [where P = "\<lambda>e. True"]) simp_all
  show "fst (make_request env m path method params) = Inr data"
    using ok js by (auto simp: mk handle_response_result)
next
  let ?m = "with_receivers bm f g"
  let ?P = "\<lambda>e. slots e = slots (events ?m)"
  assume bus: "emit_event benv = bus_emit" and fails: "f data"
    and fresh: "slots (events bm) ''receive'' = []"
    and ok: "status resp = 200 \<or> status resp = 201" and js: "json resp = Inr data"
    and recv: "Received resp \<in> set (trace (snd (make_request benv ?m path method params)))"
  have step: "\<And>n p e. ?P e \<Longrightarrow> ?P (snd (emit_event benv n p e))"
    by (simp add: bus bus_emit_slots)
  from recv step obtain s url headers where
    mk: "make_request benv ?m path method params =
       handle_response benv resp
         (logged (Received resp)
            (logged (Request (lower method) url (body_of benv params) headers) s))"
    and inv: "?P (events (self s))"
    by (rule make_exchange [where P = ?P]) simp_all
  show "fst (make_request benv ?m path method params) = Inr data"
    using ok js by (auto simp: mk handle_response_result)
  define s0 where
    "s0 = logged (Received resp) (logged (Request (lower method) url (body_of benv params) headers) s)"
  from inv have "?P (events (self s0))"
    by (simp add: s0_def)
  from handle_response_events [of ?P benv s0 resp data, OF step this ok js]
  obtain e where e: "slots e = slots (events ?m)"
    and fin: "events (self (snd (handle_response benv resp s0))) =
                snd (emit_event benv ''receive'' data e)"
    by blast
  have "invoked (events (self (snd (make_request benv ?m path method params)))) =
          invoked e @ [(''receive'', 0, data, True), (''receive'', 1, data, g data)]"
    using fails fresh
    by (simp add: mk s0_def [symmetric] fin bus bus_emit_def e with_receivers_slots)
  then show "\<exists>pre. invoked (events (self (snd
                 (make_request benv ?m path method params)))) =
               pre @ [(''receive'', 0, data, True), (''receive'', 1, data, g data)]"
    by blast
qed

lemma exchange_result:
  assumes "Received resp \<in> set (trace (snd (make_request env m path method params)))"
  shows "fst (make_request env m path method params) =
     (if status resp = 204 then Inr VNone
      else if status resp = 200 \<or> status resp = 201 then json resp
      else if 400 \<le> status resp \<and> status resp < 500 then
        (case json resp of
           Inl e \<Rightarrow> Inl e
         | Inr err \<Rightarrow>
             (case error_code err of
                Inl e \<Rightarrow> Inl e
              | Inr code \<Rightarrow> Inl (PteroAPIError code err)))
      else Inl (RequestError
             (''pterodactyl api returned an invalid or unacceptable response (status: ''
               @ str_int (status resp) @ '')'')))"
proof -
  from assms obtain s url headers where
    mk: "make_request env m path method params =
       handle_response env resp
         (logged (Received resp)
            (logged (Request (lower method) url (body_of env params) headers) s))"
    by (rule make_exchange [where P = "\<lambda>e. True"]) simp_all
  show ?thesis
    unfolding mk by (rule handle_response_result)
qed

lemma bus_exchange:
  "Received resp \<in>
     set (trace (snd (make_request (bus_env resp) (with_receivers bus_manager f g) path ''GET'' [])))"
  by (simp add: make_request_def bus_env_def bus_manager_def with_receivers_def on_receive_def
      init_def http_methods_def select_body_def dict_copy_def heap_pop_def query_keys_def
      dict_pop_def dict_get_def validate_query_empty get_headers_def Let_def
      handle_response_received)

lemma not_found_code: "error_code not_found_body = Inr (VStr ''NotFound'')"
  by (simp add: error_code_def not_found_body_def ebind_def)

lemma no_code: "error_code (VDict []) = Inl PyKeyError"
  by (simp add: error_code_def ebind_def)

lemma str_int_examples: "str_int 404 = ''404''" "str_int 503 = ''503''"
  by (simp_all add: str_int_def str_nat.simps digit_char_def)

theorem response_success_witness:
  "fst (make_request (example_env no_content_response) example_manager ''/servers'' ''GET'' [])
     = Inr VNone \<and>
   filter (is_emit ''receive'')
     (trace (snd (make_request (example_env no_content_response) example_manager
        ''/servers'' ''GET'' []))) = [] \<and>
   fst (make_request (example_env ok_response) example_manager ''/servers'' ''GET'' [])
     = Inr ok_payload \<and>
   filter (is_emit ''receive'')
     (trace (snd (make_request (example_env ok_response) example_manager
        ''/servers'' ''GET'' []))) = [Emit ''receive'' ok_payload] \<and>
   fst (make_request (example_env undecodable_ok_response) example_manager
        ''/servers'' ''GET'' []) = Inl (LibraryError ''ContentTypeError'') \<and>
   filter (is_emit ''receive'')
     (trace (snd (make_request (example_env undecodable_ok_response) example_manager
        ''/servers'' ''GET'' []))) = []"
  using response_success [OF example_exchange, of no_content_response "''/servers''"]
    response_success [OF example_exchange, of ok_response "''/servers''"]
    response_success [OF example_exchange, of undecodable_ok_response "''/servers''"]
  by (simp add: no_content_response_def ok_response_def undecodable_ok_response_def)

text \<open>
  C3 as stated fails: a completed exchange with status 200 whose body
  \<^verbatim>\<open>response.json()\<close> cannot decode returns no payload and emits no receive event; the
  call raises the decoder's exception.
\<close>

theorem undecodable_ok_response_counterexample:
  "Received undecodable_ok_response \<in>
     set (trace (snd (make_request (example_env undecodable_ok_response) example_manager
        ''/servers'' ''GET'' []))) \<and>
   status undecodable_ok_response = 200 \<and>
   fst (make_request (example_env undecodable_ok_response) example_manager
        ''/servers'' ''GET'' []) = Inl (LibraryError ''ContentTypeError'') \<and>
   filter (is_emit ''receive'')
     (trace (snd (make_request (example_env undecodable_ok_response) example_manager
        ''/servers'' ''GET'' []))) = []"
  using example_exchange [of undecodable_ok_response "''/servers''"]
    exchange_result [OF example_exchange, of undecodable_ok_response "''/servers''"]
    exchange_no_receive [OF example_exchange, of undecodable_ok_response
      "LibraryError ''ContentTypeError''" "''/servers''"]
  by (simp add: undecodable_ok_response_def)

theorem response_error_witness:
  "fst (make_request (example_env not_found_response) example_manager ''/servers'' ''GET'' [])
     = Inl (PteroAPIError (VStr ''NotFound'') not_found_body) \<and>
   fst (make_request (example_env html_not_found_response) example_manager ''/servers'' ''GET'' [])
     = Inl (LibraryError ''ContentTypeError'') \<and>
   fst (make_request (example_env no_code_response) example_manager ''/servers'' ''GET'' [])
     = Inl PyKeyError \<and>
   fst (make_request (example_env unavailable_response) example_manager ''/servers'' ''GET'' [])
     = Inl (RequestError
         ''pterodactyl api returned an invalid or unacceptable response (status: 503)'')"
  using response_error [OF example_exchange, of not_found_response "''/servers''"]
    response_error [OF example_exchange, of html_not_found_response "''/servers''"]
    response_error [OF example_exchange, of no_code_response "''/servers''"]
    response_error [OF example_exchange, of unavailable_response "''/servers''"]
    not_found_code no_code
  by (simp add: not_found_response_def html_not_found_response_def no_code_response_def
      unavailable_response_def str_int_examples)

text \<open>
  C2 as stated fails: a 404 whose body is not JSON does not raise \<open>RequestError\<close>;
  the exception of \<^verbatim>\<open>response.json()\<close> leaves \<^verbatim>\<open>_make\<close> as it is.
\<close>

theorem non_json_client_error_counterexample:
  "Received html_not_found_response \<in>
     set (trace (snd (make_request (example_env html_not_found_response) example_manager
        ''/servers'' ''GET'' []))) \<and>
   status html_not_found_response = 404 \<and>
   fst (make_request (example_env html_not_found_response) example_manager ''/servers'' ''GET'' [])
     = Inl (LibraryError ''ContentTypeError'') \<and>
   fst (make_request (example_env html_not_found_response) example_manager ''/servers'' ''GET'' [])
     \<noteq> Inl (RequestError
         ''pterodactyl api returned an invalid or unacceptable response (status: 404)'')"
  using example_exchange [of html_not_found_response "''/servers''"]
    exchange_result [OF example_exchange, of html_not_found_response "''/servers''"]
  by (simp add: html_not_found_response_def)

lemma exchange_ping:
  assumes "Received resp \<in> set (trace (snd (make_request env m path method params)))"
  shows "ping (self (snd (make_request env m path method params))) =
           time_at_response env - time_at_send env"
proof -
  from assms obtain s url headers where
    mk: "make_request env m path method params =
       handle_response env resp
         (logged (Received resp)
            (logged (Request (lower method) url (body_of env params) headers) s))"
    by (rule make_exchange [where P = "\<lambda>e. True"]) simp_all
  show ?thesis
    unfolding mk by (rule handle_response_ping)
qed

lemma set_back_exchange:
  "Received resp \<in> set (trace (snd (make_request (set_back_env resp) example_manager path ''GET'' [])))"
  by (simp add: make_request_def set_back_env_def example_manager_def init_def http_methods_def
      select_body_def dict_copy_def heap_pop_def query_keys_def dict_pop_def dict_get_def
      validate_query_empty get_headers_def Let_def handle_response_received)

text \<open>
  C8 as stated fails: \<^verbatim>\<open>time()\<close> is the wall clock, and when it reads 12 at line 87
  and 10 at line 92 a completed exchange leaves \<open>ping\<close> at -2.
\<close>

theorem clock_set_back_counterexample:
  "Received ok_response \<in>
     set (trace (snd (make_request (set_back_env ok_response) example_manager
        ''/servers'' ''GET'' []))) \<and>
   ping (self (snd (make_request (set_back_env ok_response) example_manager
        ''/servers'' ''GET'' []))) = - 2 \<and>
   \<not> 0 \<le> ping (self (snd (make_request (set_back_env ok_response) example_manager
        ''/servers'' ''GET'' [])))"
  using set_back_exchange [of ok_response "''/servers''"]
    exchange_ping [OF set_back_exchange, of ok_response "''/servers''"]
  by (simp add: set_back_env_def)

theorem ping_after_exchange_witness:
  "ping (init () None [] None) = - 1 \<and>
   ping (self (snd (make_request (example_env ok_response) example_manager
      ''/servers'' ''GET'' []))) = 2 \<and>
   0 \<le> ping (self (snd (make_request (example_env ok_response) example_manager
      ''/servers'' ''GET'' [])))"
  using ping_after_exchange [of "()" None "[]" None ok_response "example_env ok_response"
      example_manager "''/servers''" "''GET''" "[]"]
    example_exchange [of ok_response "''/servers''"]
  by (simp add: example_env_def)

theorem invalid_method_rejected_witness:
  "fst (make_request (example_env ok_response) example_manager ''/servers'' ''HEAD'' []) =
     Inl (ValueError (''invalid http method '' @ [CHR 0x27] @ ''HEAD'' @ [CHR 0x27])) \<and>
   trace (snd (make_request (example_env ok_response) example_manager ''/servers'' ''HEAD'' []))
     = [] \<and>
   self (snd (make_request (example_env ok_response) example_manager ''/servers'' ''HEAD'' []))
     = example_manager"
  using invalid_method_rejected [of "''HEAD''" "example_env ok_response" example_manager
      "''/servers''" "[]"]
  by (simp add: http_methods_def)

theorem callback_failure_contained_witness:
  "fst (make_request (example_env ok_response) example_manager ''/servers'' ''GET'' [])
     = Inr ok_payload \<and>
   fst (make_request (bus_env ok_response)
          (with_receivers bus_manager failing_callback quiet_callback) ''/servers'' ''GET'' [])
     = Inr ok_payload \<and>
   (\<exists>pre. invoked (events (self (snd (make_request (bus_env ok_response)
              (with_receivers bus_manager failing_callback quiet_callback)
              ''/servers'' ''GET'' [])))) =
           pre @ [(''receive'', 0, ok_payload, True), (''receive'', 1, ok_payload, False)])"
  using callback_failure_contained [of ok_response ok_payload "example_env ok_response"
      example_manager "''/servers''" "''GET''" "[]" "bus_env ok_response" failing_callback
      bus_manager quiet_callback]
    example_exchange [of ok_response "''/servers''"]
    bus_exchange [of ok_response failing_callback quiet_callback "''/servers''"]
  by (simp add: ok_response_def bus_env_def bus_manager_def init_def empty_bus_def
      failing_callback_def quiet_callback_def)



end
